theory Spec2Isabelle
  imports Main
begin

section \<open>Data model\<close>

text \<open>
  The types of \<^verbatim>\<open>types/CoveyTownSocket\<close> and \<^verbatim>\<open>lib/Player\<close> that the two classes
  use. Identifiers are strings; board coordinates are JavaScript numbers, kept as
  integers (nothing in the engine restricts them to 0..2 at run time).
\<close>

type_synonym PlayerID = string
type_synonym GameInstanceID = string

record Player =
  player_id :: PlayerID
  userName :: string

datatype GamePiece = Piece_X | Piece_O

datatype GameStatus = WAITING_TO_START | IN_PROGRESS | OVER

record TicTacToeMove =
  row :: int
  col :: int
  gamePiece :: GamePiece

record GameMove =
  playerID :: PlayerID
  gameID :: GameInstanceID
  move :: TicTacToeMove

text \<open>
  \<^verbatim>\<open>TicTacToeGameState\<close>: the fields \<^verbatim>\<open>x\<close>, \<^verbatim>\<open>o\<close> and \<^verbatim>\<open>winner\<close> are optional
  in the source (\<^verbatim>\<open>undefined\<close> is \<open>None\<close>); \<^verbatim>\<open>x\<close> and \<^verbatim>\<open>o\<close> are named
  \<open>x_id\<close> and \<open>o_id\<close> here.
\<close>

record TicTacToeGameState =
  moves :: "TicTacToeMove list"
  status :: GameStatus
  x_id :: "PlayerID option"
  o_id :: "PlayerID option"
  winner :: "PlayerID option"

text \<open>
  A \<^verbatim>\<open>TicTacToeGame\<close> object: its identifier, its state and the protected list
  \<^verbatim>\<open>_players\<close> of the base class.
\<close>

record TicTacToeGame =
  game_id :: GameInstanceID
  state :: TicTacToeGameState
  players :: "Player list"

text \<open>
  The message of an \<^verbatim>\<open>InvalidParametersError\<close> is written in the source either as one
  of the constants imported from \<^verbatim>\<open>lib/InvalidParametersError\<close> (a file that is not
  among the sources, so the strings the constants stand for are not known) or as a string
  literal. A message is kept in the form the source writes it; \<open>surfaced\<close> gives the
  string a caller reads, for any value \<open>v\<close> of the imported constants.
\<close>

datatype message_constant =
    GAME_NOT_IN_PROGRESS_MESSAGE
  | INVALID_COMMAND_MESSAGE
  | GAME_FULL_MESSAGE
  | PLAYER_ALREADY_IN_GAME_MESSAGE
  | PLAYER_NOT_IN_GAME_MESSAGE

datatype message = Imported message_constant | Literal string

datatype error = InvalidParametersError message

fun surfaced :: "(message_constant \<Rightarrow> string) \<Rightarrow> error \<Rightarrow> string" where
  "surfaced v (InvalidParametersError (Imported c)) = v c"
| "surfaced v (InvalidParametersError (Literal s)) = s"

section \<open>TicTacToeGame\<close>

text \<open>
  The constructor passes \<^verbatim>\<open>{ moves: [], status: 'WAITING_TO_START' }\<close> to the base
  class. Modelled from the spec: the constructor of the base class \<^verbatim>\<open>Game\<close>
  (\<^verbatim>\<open>Game.ts\<close> is not among the sources) gives the match its identifier and starts it
  with no occupants; the identifier is a parameter here.
\<close>

definition newGame :: "GameInstanceID \<Rightarrow> TicTacToeGame" where
  "newGame i =
     \<lparr>game_id = i,
      state = \<lparr>moves = [], status = WAITING_TO_START, x_id = None, o_id = None, winner = None\<rparr>,
      players = []\<rparr>"

text \<open>\<^verbatim>\<open>_isPositionOccupied\<close>: \<^verbatim>\<open>moves.some(move => move.row === row && move.col === col)\<close>.\<close>

definition isPositionOccupied :: "TicTacToeGame \<Rightarrow> int \<Rightarrow> int \<Rightarrow> bool" where
  "isPositionOccupied g r c = list_ex (\<lambda>m. row m = r \<and> col m = c) (moves (state g))"

text \<open>
  \<^verbatim>\<open>_checkForWin\<close>. Each of the four loops runs \<^verbatim>\<open>i\<close> over 0, 1, 2 and counts the
  indices for which \<^verbatim>\<open>moves.some(...)\<close> finds a move of the piece; \<open>countHits\<close> is that
  count. The moves scanned are those of \<^verbatim>\<open>this.state\<close>.
\<close>

definition countHits :: "(int \<Rightarrow> bool) \<Rightarrow> nat" where
  "countHits hit = length (filter hit [0, 1, 2])"

definition checkForWin :: "TicTacToeGame \<Rightarrow> int \<Rightarrow> int \<Rightarrow> GamePiece \<Rightarrow> bool" where
  "checkForWin g r c currentPlayerPiece =
     (let ms = moves (state g);
          rowCount = countHits (\<lambda>i. list_ex (\<lambda>m. row m = r \<and> col m = i
                        \<and> gamePiece m = currentPlayerPiece) ms);
          colCount = countHits (\<lambda>i. list_ex (\<lambda>m. row m = i \<and> col m = c
                        \<and> gamePiece m = currentPlayerPiece) ms);
          diagCount = countHits (\<lambda>i. list_ex (\<lambda>m. row m = i \<and> col m = i
                        \<and> gamePiece m = currentPlayerPiece) ms);
          reverseDiagCount = countHits (\<lambda>i. list_ex (\<lambda>m. row m = i \<and> col m = 2 - i
                        \<and> gamePiece m = currentPlayerPiece) ms)
      in if rowCount = 3 then True
         else if colCount = 3 then True
         else if r = c \<and> diagCount = 3 then True
         else if r + c = 2 \<and> reverseDiagCount = 3 then True
         else False)"

text \<open>
  The piece \<^verbatim>\<open>applyMove\<close> derives for the mover:
  \<^verbatim>\<open>currentPlayerID === x ? 'X' : 'O'\<close>.
\<close>

definition currentPlayerPiece :: "GameMove \<Rightarrow> TicTacToeGame \<Rightarrow> GamePiece" where
  "currentPlayerPiece mv g =
     (if Some (playerID mv) = x_id (state g) then Piece_X else Piece_O)"

text \<open>
  \<^verbatim>\<open>applyMove\<close>. The three checks throw before anything is written. The source then
  copies the move list (\<^verbatim>\<open>[...moves]\<close>), pushes the move onto the copy
  \<^verbatim>\<open>newMovesArray\<close> and never stores the copy; \<^verbatim>\<open>_checkForWin\<close> and the test
  \<^verbatim>\<open>moves.length === 9\<close> read the list of the state.
\<close>

definition applyMove :: "GameMove \<Rightarrow> TicTacToeGame \<Rightarrow> error + TicTacToeGame" where
  "applyMove mv g =
     (let ms = moves (state g);
          piece = currentPlayerPiece mv g
      in if status (state g) \<noteq> IN_PROGRESS
           then Inl (InvalidParametersError (Literal ''GAME_NOT_IN_PROGRESS_MESSAGE''))
         else if (piece = Piece_X \<and> length ms mod 2 \<noteq> 0)
                 \<or> (piece = Piece_O \<and> length ms mod 2 = 0)
           then Inl (InvalidParametersError (Literal ''MOVE_NOT_YOUR_TURN_MESSAGE''))
         else if isPositionOccupied g (row (move mv)) (col (move mv))
           then Inl (InvalidParametersError (Literal ''BOARD_POSITION_NOT_EMPTY_MESSAGE''))
         else
           (let newMovesArray = ms @ [move mv]
            in if checkForWin g (row (move mv)) (col (move mv)) piece
                 then Inr (g\<lparr>state := (state g)\<lparr>status := OVER, winner := Some (playerID mv)\<rparr>\<rparr>)
               else if length ms = 9
                 then Inr (g\<lparr>state := (state g)\<lparr>status := OVER, winner := None\<rparr>\<rparr>)
               else Inr g))"

text \<open>\<^verbatim>\<open>_join\<close>: both checks throw before anything is written.\<close>

definition priv_join :: "Player \<Rightarrow> TicTacToeGame \<Rightarrow> error + TicTacToeGame" where
  "priv_join player g =
     (if list_ex (\<lambda>p. player_id p = player_id player) (players g)
        then Inl (InvalidParametersError (Imported PLAYER_ALREADY_IN_GAME_MESSAGE))
      else if length (players g) \<ge> 2
        then Inl (InvalidParametersError (Imported GAME_FULL_MESSAGE))
      else if length (players g) = 0
        then Inr (g\<lparr>state := (state g)\<lparr>x_id := Some (player_id player)\<rparr>\<rparr>)
      else if length (players g) = 1
        then Inr (g\<lparr>state := (state g)\<lparr>o_id := Some (player_id player), status := IN_PROGRESS\<rparr>\<rparr>)
      else Inr g)"

text \<open>
  Modelled from the spec: the public \<^verbatim>\<open>join\<close> of the base class \<^verbatim>\<open>Game\<close>
  (\<^verbatim>\<open>Game.ts\<close> is not among the sources). \<^verbatim>\<open>_join\<close> only reads \<^verbatim>\<open>_players\<close>; the
  spec's join "adds a player to the match", and the tests call \<^verbatim>\<open>game.join\<close> twice and
  expect the second player to become O. So \<open>join\<close> runs \<^verbatim>\<open>_join\<close> and, when it
  does not throw, records the player as an occupant.
\<close>

definition join :: "Player \<Rightarrow> TicTacToeGame \<Rightarrow> error + TicTacToeGame" where
  "join player g =
     (case priv_join player g of
        Inl e \<Rightarrow> Inl e
      | Inr g' \<Rightarrow> Inr (g'\<lparr>players := players g' @ [player]\<rparr>))"

text \<open>
  \<^verbatim>\<open>_leave\<close>: throws before anything is written, then removes the player from
  \<^verbatim>\<open>_players\<close> and sets the status from the number of players left. The winner is
  written in the first branch only.
\<close>

definition priv_leave :: "Player \<Rightarrow> TicTacToeGame \<Rightarrow> error + TicTacToeGame" where
  "priv_leave player g =
     (if \<not> list_ex (\<lambda>p. player_id p = player_id player) (players g)
        then Inl (InvalidParametersError (Imported PLAYER_NOT_IN_GAME_MESSAGE))
      else
        (let g1 = g\<lparr>players := filter (\<lambda>p. player_id p \<noteq> player_id player) (players g)\<rparr>
         in if length (players g1) = 1
              then Inr (g1\<lparr>state := (state g1)\<lparr>status := OVER,
                                               winner := Some (player_id (players g1 ! 0))\<rparr>\<rparr>)
            else if length (players g1) = 0
              then Inr (g1\<lparr>state := (state g1)\<lparr>status := WAITING_TO_START\<rparr>\<rparr>)
            else Inr g1))"

text \<open>
  Modelled from the spec: the public \<^verbatim>\<open>leave\<close> of the base class \<^verbatim>\<open>Game\<close>
  (\<^verbatim>\<open>Game.ts\<close> is not among the sources). \<^verbatim>\<open>_leave\<close> removes the player itself, so
  \<open>leave\<close> is \<^verbatim>\<open>_leave\<close>.
\<close>

definition leave :: "Player \<Rightarrow> TicTacToeGame \<Rightarrow> error + TicTacToeGame" where
  "leave player g = priv_leave player g"

section \<open>TicTacToeGameArea\<close>

text \<open>
  The area holds the optional game \<^verbatim>\<open>_game\<close> and the list \<^verbatim>\<open>_history\<close>; \<open>changes\<close>
  counts the calls of \<^verbatim>\<open>_emitAreaChanged\<close>. A history entry is
  \<^verbatim>\<open>{ gameID, scores: { [player.userName]: 0 } }\<close>.
\<close>

record GameResult =
  result_gameID :: GameInstanceID
  scores :: "(string \<times> int) list"

record TicTacToeGameArea =
  game :: "TicTacToeGame option"
  history :: "GameResult list"
  changes :: nat

datatype command =
    JoinGameCommand
  | GameMoveCommand GameInstanceID TicTacToeMove
  | LeaveGameCommand GameInstanceID
  | OtherCommand string

datatype response = JoinResponse GameInstanceID | EmptyResponse

definition emitAreaChanged :: "TicTacToeGameArea \<Rightarrow> TicTacToeGameArea" where
  "emitAreaChanged a = a\<lparr>changes := Suc (changes a)\<rparr>"

text \<open>
  The block both \<^verbatim>\<open>GameMove\<close> and \<^verbatim>\<open>LeaveGame\<close> run after the engine returned:
  store the game, record the outcome and drop the game when its status is
  \<^verbatim>\<open>OVER\<close>, then notify.
\<close>

definition recordOutcome :: "Player \<Rightarrow> TicTacToeGame \<Rightarrow> TicTacToeGameArea \<Rightarrow> TicTacToeGameArea" where
  "recordOutcome player g' a =
     emitAreaChanged
       (if status (state g') = OVER
          then a\<lparr>history := history a @ [\<lparr>result_gameID = game_id g',
                                            scores = [(userName player, 0)]\<rparr>],
                 game := None\<rparr>
        else a\<lparr>game := Some g'\<rparr>)"

text \<open>
  \<^verbatim>\<open>handleCommand\<close>. The result is what the caller gets (the error thrown, or the
  response) and the area afterwards. \<open>fresh\<close> is the identifier a game constructed during
  the call receives. Every \<^verbatim>\<open>catch\<close> rethrows
  \<^verbatim>\<open>new InvalidParametersError(error.message)\<close>. The identifier carried by a
  \<^verbatim>\<open>GameMove\<close> or \<^verbatim>\<open>LeaveGame\<close> command is never read.
\<close>

definition handleCommand ::
  "GameInstanceID \<Rightarrow> command \<Rightarrow> Player \<Rightarrow> TicTacToeGameArea
     \<Rightarrow> (error + response) \<times> TicTacToeGameArea" where
  "handleCommand fresh cmd player a =
     (case cmd of
        JoinGameCommand \<Rightarrow>
          (let g = (case game a of
                      None \<Rightarrow> newGame fresh
                    | Some g0 \<Rightarrow> if status (state g0) = OVER then newGame fresh else g0);
               a1 = a\<lparr>game := Some g\<rparr>
           in case join player g of
                Inl (InvalidParametersError msg) \<Rightarrow> (Inl (InvalidParametersError msg), a1)
              | Inr g' \<Rightarrow>
                  (Inr (JoinResponse (game_id g')),
                   if status (state g') = IN_PROGRESS
                     then emitAreaChanged (a1\<lparr>game := Some g'\<rparr>)
                   else a1\<lparr>game := Some g'\<rparr>))
      | GameMoveCommand cid m \<Rightarrow>
          (case game a of
             None \<Rightarrow> (Inl (InvalidParametersError (Imported GAME_NOT_IN_PROGRESS_MESSAGE)), a)
           | Some g \<Rightarrow>
               if status (state g) \<noteq> IN_PROGRESS
                 then (Inl (InvalidParametersError (Imported GAME_NOT_IN_PROGRESS_MESSAGE)), a)
               else
                 (case applyMove \<lparr>playerID = player_id player, gameID = game_id g, move = m\<rparr> g of
                    Inl (InvalidParametersError msg) \<Rightarrow> (Inl (InvalidParametersError msg), a)
                  | Inr g' \<Rightarrow> (Inr EmptyResponse, recordOutcome player g' a)))
      | LeaveGameCommand cid \<Rightarrow>
          (case game a of
             None \<Rightarrow> (Inl (InvalidParametersError (Imported GAME_NOT_IN_PROGRESS_MESSAGE)), a)
           | Some g \<Rightarrow>
               if status (state g) \<noteq> IN_PROGRESS
                 then (Inl (InvalidParametersError (Imported GAME_NOT_IN_PROGRESS_MESSAGE)), a)
               else
                 (case leave player g of
                    Inl (InvalidParametersError msg) \<Rightarrow> (Inl (InvalidParametersError msg), a)
                  | Inr g' \<Rightarrow> (Inr EmptyResponse, recordOutcome player g' a)))
      | OtherCommand t \<Rightarrow>
          (Inl (InvalidParametersError (Imported INVALID_COMMAND_MESSAGE)), a))"

section \<open>Example players, moves and matches\<close>

definition alice :: Player where
  "alice = \<lparr>player_id = ''p1'', userName = ''alice''\<rparr>"

definition bob :: Player where
  "bob = \<lparr>player_id = ''p2'', userName = ''bob''\<rparr>"

definition carol :: Player where
  "carol = \<lparr>player_id = ''p3'', userName = ''carol''\<rparr>"

text \<open>The match after \<open>alice\<close> joined a new match \<^verbatim>\<open>g1\<close>, and after \<open>bob\<close> joined too.\<close>

definition oneJoined :: TicTacToeGame where
  "oneJoined =
     \<lparr>game_id = ''g1'',
      state = \<lparr>moves = [], status = WAITING_TO_START, x_id = Some ''p1'', o_id = None,
               winner = None\<rparr>,
      players = [alice]\<rparr>"

definition bothJoined :: TicTacToeGame where
  "bothJoined =
     \<lparr>game_id = ''g1'',
      state = \<lparr>moves = [], status = IN_PROGRESS, x_id = Some ''p1'', o_id = Some ''p2'',
               winner = None\<rparr>,
      players = [alice, bob]\<rparr>"

text \<open>The match \<open>oneJoined\<close> after \<open>alice\<close> left it again.\<close>

definition soleLeft :: TicTacToeGame where
  "soleLeft =
     \<lparr>game_id = ''g1'',
      state = \<lparr>moves = [], status = WAITING_TO_START, x_id = Some ''p1'', o_id = None,
               winner = None\<rparr>,
      players = []\<rparr>"

text \<open>The match \<open>bothJoined\<close> after \<open>alice\<close> left it, and after \<open>bob\<close> left it too.\<close>

definition aliceLeft :: TicTacToeGame where
  "aliceLeft =
     \<lparr>game_id = ''g1'',
      state = \<lparr>moves = [], status = OVER, x_id = Some ''p1'', o_id = Some ''p2'',
               winner = Some ''p2''\<rparr>,
      players = [bob]\<rparr>"

definition bothLeft :: TicTacToeGame where
  "bothLeft =
     \<lparr>game_id = ''g1'',
      state = \<lparr>moves = [], status = WAITING_TO_START, x_id = Some ''p1'', o_id = Some ''p2'',
               winner = Some ''p2''\<rparr>,
      players = []\<rparr>"

definition moveBy :: "Player \<Rightarrow> int \<Rightarrow> int \<Rightarrow> GamePiece \<Rightarrow> GameMove" where
  "moveBy p r c pc =
     \<lparr>playerID = player_id p, gameID = ''g1'', move = \<lparr>row = r, col = c, gamePiece = pc\<rparr>\<rparr>"

definition cell :: "int \<Rightarrow> int \<Rightarrow> GamePiece \<Rightarrow> TicTacToeMove" where
  "cell r c pc = \<lparr>row = r, col = c, gamePiece = pc\<rparr>"

text \<open>
  States of the match of \<open>alice\<close> and \<open>bob\<close> whose log already holds moves, as it would
  if earlier moves had been stored: one move; the four moves before X completes column
  0; eight moves of a board without three in a row, the cell (2,2) being free.
\<close>

definition logged :: "TicTacToeMove list \<Rightarrow> TicTacToeGame" where
  "logged ms = bothJoined\<lparr>state := (state bothJoined)\<lparr>moves := ms\<rparr>\<rparr>"

definition oneLogged :: TicTacToeGame where
  "oneLogged = logged [cell 0 0 Piece_X]"

definition columnReady :: TicTacToeGame where
  "columnReady = logged [cell 0 0 Piece_X, cell 0 1 Piece_O, cell 1 0 Piece_X, cell 1 1 Piece_O]"

definition eightLogged :: TicTacToeGame where
  "eightLogged =
     logged [cell 0 0 Piece_X, cell 0 1 Piece_O, cell 0 2 Piece_X, cell 1 1 Piece_O,
             cell 1 0 Piece_X, cell 1 2 Piece_O, cell 2 1 Piece_X, cell 2 0 Piece_O]"

definition areaEmpty :: TicTacToeGameArea where
  "areaEmpty = \<lparr>game = None, history = [], changes = 0\<rparr>"

definition areaInProgress :: TicTacToeGameArea where
  "areaInProgress = \<lparr>game = Some bothJoined, history = [], changes = 0\<rparr>"

section \<open>Auxiliary facts\<close>

lemmas engine_defs = join_def priv_join_def leave_def priv_leave_def applyMove_def
  currentPlayerPiece_def isPositionOccupied_def checkForWin_def countHits_def newGame_def

lemmas area_defs = handleCommand_def recordOutcome_def emitAreaChanged_def

lemma applyMove_game_id: "applyMove mv g = Inr g' \<Longrightarrow> game_id g' = game_id g"
  by (auto simp: applyMove_def Let_def split: if_splits)

lemma leave_game_id: "leave p g = Inr g' \<Longrightarrow> game_id g' = game_id g"
  by (auto simp: leave_def priv_leave_def Let_def split: if_splits)

lemma join_newGame:
  "join q (newGame i) =
     Inr \<lparr>game_id = i,
          state = \<lparr>moves = [], status = WAITING_TO_START, x_id = Some (player_id q),
                   o_id = None, winner = None\<rparr>,
          players = [q]\<rparr>"
  by (simp add: join_def priv_join_def newGame_def)

lemma recordOutcome_history:
  "history (recordOutcome p g' a) =
     (if status (state g') = OVER
        then history a @ [\<lparr>result_gameID = game_id g', scores = [(userName p, 0)]\<rparr>]
      else history a)"
  by (simp add: recordOutcome_def emitAreaChanged_def)

lemma recordOutcome_over:
  "status (state g') = OVER \<Longrightarrow>
   recordOutcome p g' a =
     a\<lparr>history := history a @ [\<lparr>result_gameID = game_id g', scores = [(userName p, 0)]\<rparr>],
       game := None, changes := Suc (changes a)\<rparr>"
  by (simp add: recordOutcome_def emitAreaChanged_def)

lemma handleCommand_move_accepted:
  "game a = Some h \<Longrightarrow> status (state h) = IN_PROGRESS \<Longrightarrow>
   applyMove \<lparr>playerID = player_id p, gameID = game_id h, move = mv\<rparr> h = Inr h' \<Longrightarrow>
   handleCommand fresh (GameMoveCommand c mv) p a = (Inr EmptyResponse, recordOutcome p h' a)"
  by (simp add: handleCommand_def)

lemma handleCommand_leave_accepted:
  "game a = Some h \<Longrightarrow> status (state h) = IN_PROGRESS \<Longrightarrow> leave p h = Inr h' \<Longrightarrow>
   handleCommand fresh (LeaveGameCommand c) p a = (Inr EmptyResponse, recordOutcome p h' a)"
  by (simp add: handleCommand_def)

lemma handleCommand_join_history:
  "history (snd (handleCommand fresh JoinGameCommand p a)) = history a"
  by (simp add: handleCommand_def emitAreaChanged_def Let_def split: sum.splits error.splits)

lemma handleCommand_move_history:
  "history (snd (handleCommand fresh (GameMoveCommand c mv) p a)) \<noteq> history a \<Longrightarrow>
   \<exists>h h'. game a = Some h \<and> status (state h) = IN_PROGRESS
      \<and> applyMove \<lparr>playerID = player_id p, gameID = game_id h, move = mv\<rparr> h = Inr h'"
  by (cases "game a")
     (auto simp: handleCommand_def split: sum.splits error.splits if_splits)

lemma handleCommand_leave_history:
  "history (snd (handleCommand fresh (LeaveGameCommand c) p a)) \<noteq> history a \<Longrightarrow>
   \<exists>h h'. game a = Some h \<and> status (state h) = IN_PROGRESS \<and> leave p h = Inr h'"
  by (cases "game a")
     (auto simp: handleCommand_def split: sum.splits error.splits if_splits)

section \<open>The move log\<close>

text \<open>
  C1. A successful \<^verbatim>\<open>applyMove\<close> is claimed to append the move to the move log. In the
  code the log is left as it was: after both players joined a new match, the first move of
  the X player at (0,0) is accepted and returns the match unchanged, with an empty log.
\<close>

theorem applyMove_first_move_not_logged:
  "join alice (newGame ''g1'') = Inr oneJoined
   \<and> join bob oneJoined = Inr bothJoined
   \<and> applyMove (moveBy alice 0 0 Piece_X) bothJoined = Inr bothJoined
   \<and> moves (state bothJoined) = []"
  by (simp add: engine_defs alice_def bob_def oneJoined_def bothJoined_def moveBy_def)

section \<open>Winning and tying\<close>

text \<open>
  C2. A move that completes a line of the mover's piece is claimed to end the match with
  the mover as winner, as in the sequence X:(0,0), O:(0,1), X:(1,0), O:(1,1), X:(2,0). In
  the code, run from the match both players joined, each move of X is accepted and leaves
  the match as it was, each move of O is rejected as out of turn (the log is still empty),
  and the match stays in progress without a winner. Even from a state whose log holds the
  first four moves, X:(2,0) is accepted without ending the match: the win check scans the
  log without the new move.
\<close>

theorem applyMove_column_win_not_detected:
  "applyMove (moveBy alice 0 0 Piece_X) bothJoined = Inr bothJoined
   \<and> applyMove (moveBy bob 0 1 Piece_O) bothJoined
       = Inl (InvalidParametersError (Literal ''MOVE_NOT_YOUR_TURN_MESSAGE''))
   \<and> applyMove (moveBy alice 1 0 Piece_X) bothJoined = Inr bothJoined
   \<and> applyMove (moveBy bob 1 1 Piece_O) bothJoined
       = Inl (InvalidParametersError (Literal ''MOVE_NOT_YOUR_TURN_MESSAGE''))
   \<and> applyMove (moveBy alice 2 0 Piece_X) bothJoined = Inr bothJoined
   \<and> status (state bothJoined) = IN_PROGRESS
   \<and> winner (state bothJoined) = None
   \<and> applyMove (moveBy alice 2 0 Piece_X) columnReady = Inr columnReady
   \<and> status (state columnReady) = IN_PROGRESS"
  by (simp add: engine_defs alice_def bob_def bothJoined_def moveBy_def columnReady_def logged_def cell_def)

text \<open>
  C3. The ninth move of a board without three in a row is claimed to end the match as a
  tie. In the code, the nine moves X:(0,0), O:(0,1), X:(0,2), O:(1,1), X:(1,0), O:(1,2),
  X:(2,1), O:(2,0), X:(2,2), run from the match both players joined, leave it in progress:
  the moves of X are accepted without being stored and the moves of O are rejected as out
  of turn. Even from a state whose log holds the first eight moves, the ninth is accepted
  and the match stays in progress, since the tie test reads the length of the log before
  the move, which is 8.
\<close>

theorem applyMove_full_board_not_tied:
  "applyMove (moveBy alice 0 0 Piece_X) bothJoined = Inr bothJoined
   \<and> applyMove (moveBy bob 0 1 Piece_O) bothJoined
       = Inl (InvalidParametersError (Literal ''MOVE_NOT_YOUR_TURN_MESSAGE''))
   \<and> applyMove (moveBy alice 0 2 Piece_X) bothJoined = Inr bothJoined
   \<and> applyMove (moveBy bob 1 1 Piece_O) bothJoined
       = Inl (InvalidParametersError (Literal ''MOVE_NOT_YOUR_TURN_MESSAGE''))
   \<and> applyMove (moveBy alice 1 0 Piece_X) bothJoined = Inr bothJoined
   \<and> applyMove (moveBy bob 1 2 Piece_O) bothJoined
       = Inl (InvalidParametersError (Literal ''MOVE_NOT_YOUR_TURN_MESSAGE''))
   \<and> applyMove (moveBy alice 2 1 Piece_X) bothJoined = Inr bothJoined
   \<and> applyMove (moveBy bob 2 0 Piece_O) bothJoined
       = Inl (InvalidParametersError (Literal ''MOVE_NOT_YOUR_TURN_MESSAGE''))
   \<and> applyMove (moveBy alice 2 2 Piece_X) bothJoined = Inr bothJoined
   \<and> status (state bothJoined) = IN_PROGRESS
   \<and> length (moves (state eightLogged)) = 8
   \<and> applyMove (moveBy alice 2 2 Piece_X) eightLogged = Inr eightLogged
   \<and> status (state eightLogged) = IN_PROGRESS"
  by (simp add: engine_defs alice_def bob_def bothJoined_def moveBy_def eightLogged_def logged_def cell_def)

section \<open>Commands of the area\<close>

text \<open>
  C4. A \<^verbatim>\<open>GameMove\<close> command whose identifier differs from the active match's is claimed
  to fail. In the code the command's identifier is never read: with the match \<^verbatim>\<open>g1\<close> in
  progress, the move of \<open>alice\<close> sent with the identifier \<^verbatim>\<open>g0\<close> is applied, answered
  with the empty response and followed by a change notification.
\<close>

theorem handleCommand_ignores_command_gameID:
  "''g0'' \<noteq> game_id bothJoined
   \<and> handleCommand fresh (GameMoveCommand ''g0'' (cell 0 0 Piece_X)) alice areaInProgress
       = (Inr EmptyResponse, \<lparr>game = Some bothJoined, history = [], changes = 1\<rparr>)"
  by (simp add: area_defs engine_defs alice_def bob_def bothJoined_def areaInProgress_def cell_def)

section \<open>Leaving\<close>

text \<open>
  Against C5 as stated: after both players joined, \<open>alice\<close> leaves (the match is over,
  \<open>bob\<close> wins) and then \<open>bob\<close> leaves. The second \<^verbatim>\<open>_leave\<close> succeeds, no occupant
  remains, the status is \<^verbatim>\<open>WAITING_TO_START\<close>, and the winner is still \<open>bob\<close>.
\<close>

theorem leave_keeps_winner_counterexample:
  "priv_leave alice bothJoined = Inr aliceLeft
   \<and> priv_leave bob aliceLeft = Inr bothLeft
   \<and> players bothLeft = []
   \<and> status (state bothLeft) = WAITING_TO_START
   \<and> winner (state bothLeft) = Some ''p2''"
  by (simp add: engine_defs alice_def bob_def bothJoined_def aliceLeft_def bothLeft_def)

text \<open>
  C5, amended. Whenever \<^verbatim>\<open>_leave\<close> succeeds and no occupant remains, the status becomes
  \<^verbatim>\<open>WAITING_TO_START\<close> and the winner is left as it was: absent afterwards exactly when
  it was absent before.
\<close>

theorem leave_last_occupant:
  "priv_leave p g = Inr g' \<Longrightarrow> players g' = [] \<Longrightarrow>
   status (state g') = WAITING_TO_START \<and> winner (state g') = winner (state g)"
  by (auto simp: priv_leave_def Let_def split: if_splits)

text \<open>The sole occupant of a match nobody else joined leaves: the winner was and stays absent.\<close>

theorem leave_last_occupant_witness:
  "priv_leave alice oneJoined = Inr soleLeft
   \<and> players soleLeft = []
   \<and> status (state soleLeft) = WAITING_TO_START
   \<and> winner (state soleLeft) = winner (state oneJoined)
   \<and> winner (state soleLeft) = None"
proof -
  have l: "priv_leave alice oneJoined = Inr soleLeft"
    by (simp add: engine_defs alice_def oneJoined_def soleLeft_def)
  have e: "players soleLeft = []"
    by (simp add: soleLeft_def)
  show ?thesis
    using l e leave_last_occupant [OF l e] by (simp add: soleLeft_def)
qed

section \<open>Error messages\<close>

text \<open>
  C6. Every raise of one error kind is claimed to surface the same message. For a match
  that is not in progress, \<^verbatim>\<open>applyMove\<close> throws the string literal
  \<^verbatim>\<open>'GAME_NOT_IN_PROGRESS_MESSAGE'\<close>, while \<^verbatim>\<open>handleCommand\<close> throws the imported
  constant \<^verbatim>\<open>GAME_NOT_IN_PROGRESS_MESSAGE\<close>; a caller reads the same string from both
  only if the value of the constant is its own name.
\<close>

theorem not_in_progress_messages_differ:
  "applyMove mv (newGame i)
     = Inl (InvalidParametersError (Literal ''GAME_NOT_IN_PROGRESS_MESSAGE''))
   \<and> fst (handleCommand fresh (GameMoveCommand cid m) p areaEmpty)
     = Inl (InvalidParametersError (Imported GAME_NOT_IN_PROGRESS_MESSAGE))
   \<and> (surfaced v (InvalidParametersError (Literal ''GAME_NOT_IN_PROGRESS_MESSAGE''))
        = surfaced v (InvalidParametersError (Imported GAME_NOT_IN_PROGRESS_MESSAGE)))
     = (v GAME_NOT_IN_PROGRESS_MESSAGE = ''GAME_NOT_IN_PROGRESS_MESSAGE'')"
  by (auto simp: area_defs engine_defs areaEmpty_def)

section \<open>Joining\<close>

text \<open>
  C7. In a newly created match, the first join succeeds, makes the joiner the X player
  and leaves the status \<^verbatim>\<open>WAITING_TO_START\<close>; the join of a second, different player
  then succeeds, makes that player the O player and sets the status to
  \<^verbatim>\<open>IN_PROGRESS\<close>.
\<close>

theorem join_ordering:
  "player_id p2 \<noteq> player_id p1 \<Longrightarrow>
   (\<exists>g1 g2. join p1 (newGame i) = Inr g1
      \<and> x_id (state g1) = Some (player_id p1) \<and> o_id (state g1) = None
      \<and> status (state g1) = WAITING_TO_START
      \<and> join p2 g1 = Inr g2
      \<and> x_id (state g2) = Some (player_id p1) \<and> o_id (state g2) = Some (player_id p2)
      \<and> status (state g2) = IN_PROGRESS)"
  by (simp add: join_def priv_join_def newGame_def)

text \<open>\<open>alice\<close> and then \<open>bob\<close> join the new match \<^verbatim>\<open>g1\<close>.\<close>

theorem join_ordering_witness:
  "player_id bob \<noteq> player_id alice
   \<and> (\<exists>g1 g2. join alice (newGame ''g1'') = Inr g1
      \<and> x_id (state g1) = Some (player_id alice) \<and> o_id (state g1) = None
      \<and> status (state g1) = WAITING_TO_START
      \<and> join bob g1 = Inr g2
      \<and> x_id (state g2) = Some (player_id alice) \<and> o_id (state g2) = Some (player_id bob)
      \<and> status (state g2) = IN_PROGRESS)"
proof -
  have d: "player_id bob \<noteq> player_id alice"
    by (simp add: alice_def bob_def)
  show ?thesis
    using d join_ordering [OF d, of "''g1''"] by simp
qed

section \<open>History\<close>

text \<open>
  C8. When a \<^verbatim>\<open>GameMove\<close> or \<^verbatim>\<open>LeaveGame\<close> command finds a match in progress and the
  engine accepts it leaving the status \<^verbatim>\<open>OVER\<close>, \<^verbatim>\<open>handleCommand\<close> answers with the empty
  response, appends one history entry carrying the match's identifier, clears the active
  match and notifies; a \<^verbatim>\<open>JoinGame\<close> sent next joins a newly constructed match. In every
  other case the history is left as it was.
\<close>

theorem history_appended_exactly_when_match_ends:
  "(game a = Some g \<and> status (state g) = IN_PROGRESS \<and> status (state g') = OVER
      \<and> ((cmd = GameMoveCommand cid m
           \<and> applyMove \<lparr>playerID = player_id p, gameID = game_id g, move = m\<rparr> g = Inr g')
          \<or> (cmd = LeaveGameCommand cid \<and> leave p g = Inr g'))
    \<longrightarrow> handleCommand fresh cmd p a
          = (Inr EmptyResponse,
             a\<lparr>history := history a @ [\<lparr>result_gameID = game_id g,
                                         scores = [(userName p, 0)]\<rparr>],
               game := None, changes := Suc (changes a)\<rparr>)
        \<and> (\<exists>g2. join q (newGame fresh2) = Inr g2
              \<and> handleCommand fresh2 JoinGameCommand q (snd (handleCommand fresh cmd p a))
                  = (Inr (JoinResponse fresh2),
                     (snd (handleCommand fresh cmd p a))\<lparr>game := Some g2\<rparr>)))
   \<and> (history (snd (handleCommand fresh cmd p a)) \<noteq> history a
    \<longrightarrow> (\<exists>h h'. game a = Some h \<and> status (state h) = IN_PROGRESS \<and> status (state h') = OVER
          \<and> ((\<exists>c mv. cmd = GameMoveCommand c mv
                \<and> applyMove \<lparr>playerID = player_id p, gameID = game_id h, move = mv\<rparr> h = Inr h')
              \<or> (\<exists>c. cmd = LeaveGameCommand c \<and> leave p h = Inr h'))
          \<and> history (snd (handleCommand fresh cmd p a))
              = history a @ [\<lparr>result_gameID = game_id h, scores = [(userName p, 0)]\<rparr>]))"
proof (intro conjI impI)
  assume h: "game a = Some g \<and> status (state g) = IN_PROGRESS \<and> status (state g') = OVER
      \<and> ((cmd = GameMoveCommand cid m
           \<and> applyMove \<lparr>playerID = player_id p, gameID = game_id g, move = m\<rparr> g = Inr g')
          \<or> (cmd = LeaveGameCommand cid \<and> leave p g = Inr g'))"
  then have i: "game_id g' = game_id g"
    using applyMove_game_id leave_game_id by blast
  from h have "handleCommand fresh cmd p a = (Inr EmptyResponse, recordOutcome p g' a)"
    using handleCommand_move_accepted handleCommand_leave_accepted by blast
  with h i show r: "handleCommand fresh cmd p a
          = (Inr EmptyResponse,
             a\<lparr>history := history a @ [\<lparr>result_gameID = game_id g,
                                         scores = [(userName p, 0)]\<rparr>],
               game := None, changes := Suc (changes a)\<rparr>)"
    by (simp add: recordOutcome_over)
  show "\<exists>g2. join q (newGame fresh2) = Inr g2
              \<and> handleCommand fresh2 JoinGameCommand q (snd (handleCommand fresh cmd p a))
                  = (Inr (JoinResponse fresh2),
                     (snd (handleCommand fresh cmd p a))\<lparr>game := Some g2\<rparr>)"
    unfolding r by (simp add: handleCommand_def join_newGame)
next
  assume n: "history (snd (handleCommand fresh cmd p a)) \<noteq> history a"
  show "\<exists>h h'. game a = Some h \<and> status (state h) = IN_PROGRESS \<and> status (state h') = OVER
          \<and> ((\<exists>c mv. cmd = GameMoveCommand c mv
                \<and> applyMove \<lparr>playerID = player_id p, gameID = game_id h, move = mv\<rparr> h = Inr h')
              \<or> (\<exists>c. cmd = LeaveGameCommand c \<and> leave p h = Inr h'))
          \<and> history (snd (handleCommand fresh cmd p a))
              = history a @ [\<lparr>result_gameID = game_id h, scores = [(userName p, 0)]\<rparr>]"
  proof (cases cmd)
    case JoinGameCommand
    with n show ?thesis
      by (simp add: handleCommand_join_history)
  next
    case (OtherCommand t)
    with n show ?thesis
      by (simp add: handleCommand_def)
  next
    case (GameMoveCommand c mv)
    with n obtain h h' where
      g: "game a = Some h" and s: "status (state h) = IN_PROGRESS" and
      e: "applyMove \<lparr>playerID = player_id p, gameID = game_id h, move = mv\<rparr> h = Inr h'"
      using handleCommand_move_history by blast
    have r: "handleCommand fresh cmd p a = (Inr EmptyResponse, recordOutcome p h' a)"
      using GameMoveCommand handleCommand_move_accepted [OF g s e] by simp
    have o: "status (state h') = OVER"
      using n unfolding r by (simp add: recordOutcome_history split: if_splits)
    have "history (snd (handleCommand fresh cmd p a))
            = history a @ [\<lparr>result_gameID = game_id h, scores = [(userName p, 0)]\<rparr>]"
      unfolding r using o applyMove_game_id [OF e] by (simp add: recordOutcome_history)
    with g s e o GameMoveCommand show ?thesis
      by blast
  next
    case (LeaveGameCommand c)
    with n obtain h h' where
      g: "game a = Some h" and s: "status (state h) = IN_PROGRESS" and
      e: "leave p h = Inr h'"
      using handleCommand_leave_history by blast
    have r: "handleCommand fresh cmd p a = (Inr EmptyResponse, recordOutcome p h' a)"
      using LeaveGameCommand handleCommand_leave_accepted [OF g s e] by simp
    have o: "status (state h') = OVER"
      using n unfolding r by (simp add: recordOutcome_history split: if_splits)
    have "history (snd (handleCommand fresh cmd p a))
            = history a @ [\<lparr>result_gameID = game_id h, scores = [(userName p, 0)]\<rparr>]"
      unfolding r using o leave_game_id [OF e] by (simp add: recordOutcome_history)
    with g s e o LeaveGameCommand show ?thesis
      by blast
  qed
qed

text \<open>
  With the match of \<open>alice\<close> and \<open>bob\<close> in progress, \<open>alice\<close> sends \<^verbatim>\<open>LeaveGame\<close>: the
  match is over, one entry is appended and the active match is cleared; \<open>carol\<close> then
  joins the new match \<^verbatim>\<open>g3\<close>.
\<close>

theorem history_appended_exactly_when_match_ends_witness:
  "game areaInProgress = Some bothJoined
   \<and> status (state bothJoined) = IN_PROGRESS
   \<and> status (state aliceLeft) = OVER
   \<and> leave alice bothJoined = Inr aliceLeft
   \<and> handleCommand ''g2'' (LeaveGameCommand ''g1'') alice areaInProgress
       = (Inr EmptyResponse,
          \<lparr>game = None,
           history = [\<lparr>result_gameID = ''g1'', scores = [(''alice'', 0)]\<rparr>],
           changes = 1\<rparr>)
   \<and> history (snd (handleCommand ''g2'' (LeaveGameCommand ''g1'') alice areaInProgress))
       \<noteq> history areaInProgress
   \<and> fst (handleCommand ''g3'' JoinGameCommand carol
            (snd (handleCommand ''g2'' (LeaveGameCommand ''g1'') alice areaInProgress)))
       = Inr (JoinResponse ''g3'')"
proof -
  have l: "leave alice bothJoined = Inr aliceLeft"
    by (simp add: engine_defs alice_def bob_def bothJoined_def aliceLeft_def areaInProgress_def)
  have s: "game areaInProgress = Some bothJoined \<and> status (state bothJoined) = IN_PROGRESS
           \<and> status (state aliceLeft) = OVER"
    by (simp add: alice_def bob_def bothJoined_def aliceLeft_def areaInProgress_def)
  have h: "game areaInProgress = Some bothJoined \<and> status (state bothJoined) = IN_PROGRESS
      \<and> status (state aliceLeft) = OVER
      \<and> ((LeaveGameCommand ''g1'' = GameMoveCommand ''g1'' (cell 0 0 Piece_X)
           \<and> applyMove \<lparr>playerID = player_id alice, gameID = game_id bothJoined,
                         move = cell 0 0 Piece_X\<rparr> bothJoined = Inr aliceLeft)
          \<or> (LeaveGameCommand ''g1'' = LeaveGameCommand ''g1''
              \<and> leave alice bothJoined = Inr aliceLeft))"
    using l s by simp
  note t = history_appended_exactly_when_match_ends
        [of areaInProgress bothJoined aliceLeft "LeaveGameCommand ''g1''" "''g1''"
            "cell 0 0 Piece_X" alice "''g2''" carol "''g3''", THEN conjunct1, THEN mp, OF h]
  have e: "areaInProgress\<lparr>history := history areaInProgress
                @ [\<lparr>result_gameID = game_id bothJoined, scores = [(userName alice, 0)]\<rparr>],
              game := None, changes := Suc (changes areaInProgress)\<rparr>
           = \<lparr>game = None,
              history = [\<lparr>result_gameID = ''g1'', scores = [(''alice'', 0)]\<rparr>],
              changes = 1\<rparr>"
    by (simp add: areaInProgress_def bothJoined_def alice_def)
  have r: "handleCommand ''g2'' (LeaveGameCommand ''g1'') alice areaInProgress
       = (Inr EmptyResponse,
          \<lparr>game = None,
           history = [\<lparr>result_gameID = ''g1'', scores = [(''alice'', 0)]\<rparr>],
           changes = 1\<rparr>)"
    using t [THEN conjunct1] unfolding e .
  from t [THEN conjunct2] obtain g2 where
    "handleCommand ''g3'' JoinGameCommand carol
        (snd (handleCommand ''g2'' (LeaveGameCommand ''g1'') alice areaInProgress))
      = (Inr (JoinResponse ''g3''),
         (snd (handleCommand ''g2'' (LeaveGameCommand ''g1'') alice areaInProgress))
           \<lparr>game := Some g2\<rparr>)"
    by blast
  then have j: "fst (handleCommand ''g3'' JoinGameCommand carol
            (snd (handleCommand ''g2'' (LeaveGameCommand ''g1'') alice areaInProgress)))
       = Inr (JoinResponse ''g3'')"
    by (rule arg_cong [where f = fst, THEN trans]) simp
  have n: "history (snd (handleCommand ''g2'' (LeaveGameCommand ''g1'') alice areaInProgress))
       \<noteq> history areaInProgress"
    unfolding r by (simp add: areaInProgress_def)
  from l s r n j show ?thesis
    by (intro conjI) (rule s [THEN conjunct1] s [THEN conjunct2, THEN conjunct1]
        s [THEN conjunct2, THEN conjunct2] l r n j)+
qed

section \<open>Change notifications\<close>

text \<open>
  C9. Every command that succeeds and changes the match is claimed to be followed by a
  change notification, the first \<^verbatim>\<open>JoinGame\<close> included. In the code the first
  \<^verbatim>\<open>JoinGame\<close> sent to an area without a match succeeds, creates the match \<^verbatim>\<open>g1\<close> with
  the joiner as X, and emits nothing: \<^verbatim>\<open>_emitAreaChanged\<close> is called after a join only
  when the status is \<^verbatim>\<open>IN_PROGRESS\<close>.
\<close>

theorem first_join_emits_no_change:
  "handleCommand ''g1'' JoinGameCommand alice areaEmpty
     = (Inr (JoinResponse ''g1''), \<lparr>game = Some oneJoined, history = [], changes = 0\<rparr>)
   \<and> game areaEmpty = None
   \<and> changes areaEmpty = 0"
  by (simp add: area_defs engine_defs alice_def oneJoined_def areaEmpty_def)

section \<open>Moves of players who are not in the match\<close>

text \<open>
  C10. A mover who is neither the X player nor the O player is given the piece O, and
  is never turned away for not being in the match: in a match in progress whose log has
  odd length, the move to a free position is accepted, by \<^verbatim>\<open>applyMove\<close> and so by
  \<^verbatim>\<open>handleCommand\<close>.
\<close>

theorem applyMove_accepts_non_occupant:
  "Some (playerID mv) \<noteq> x_id (state g) \<Longrightarrow> Some (playerID mv) \<noteq> o_id (state g) \<Longrightarrow>
   currentPlayerPiece mv g = Piece_O
   \<and> (status (state g) = IN_PROGRESS \<and> odd (length (moves (state g)))
        \<and> \<not> isPositionOccupied g (row (move mv)) (col (move mv))
      \<longrightarrow> (\<exists>g'. applyMove mv g = Inr g')
          \<and> (game a = Some g \<and> playerID mv = player_id p \<and> gameID mv = game_id g
              \<longrightarrow> fst (handleCommand fresh (GameMoveCommand cid (move mv)) p a)
                    = Inr EmptyResponse))"
proof (intro conjI impI)
  assume x: "Some (playerID mv) \<noteq> x_id (state g)"
  then show pc: "currentPlayerPiece mv g = Piece_O"
    by (simp add: currentPlayerPiece_def)
  assume s: "status (state g) = IN_PROGRESS \<and> odd (length (moves (state g)))
        \<and> \<not> isPositionOccupied g (row (move mv)) (col (move mv))"
  with pc show ok: "\<exists>g'. applyMove mv g = Inr g'"
    by (auto simp: applyMove_def Let_def odd_iff_mod_2_eq_one)
  assume d: "game a = Some g \<and> playerID mv = player_id p \<and> gameID mv = game_id g"
  then have m: "\<lparr>playerID = player_id p, gameID = game_id g, move = move mv\<rparr> = mv"
    by simp
  from ok obtain g' where "applyMove mv g = Inr g'"
    by blast
  then have "applyMove \<lparr>playerID = player_id p, gameID = game_id g, move = move mv\<rparr> g = Inr g'"
    unfolding m .
  with s d show "fst (handleCommand fresh (GameMoveCommand cid (move mv)) p a)
                    = Inr EmptyResponse"
    by (simp add: handleCommand_move_accepted)
qed

text \<open>
  \<open>carol\<close>, who never joined, moves to (1,1) in the match of \<open>alice\<close> and \<open>bob\<close> whose
  log holds one move.
\<close>

theorem applyMove_accepts_non_occupant_witness:
  "Some (playerID (moveBy carol 1 1 Piece_O)) \<noteq> x_id (state oneLogged)
   \<and> Some (playerID (moveBy carol 1 1 Piece_O)) \<noteq> o_id (state oneLogged)
   \<and> status (state oneLogged) = IN_PROGRESS
   \<and> odd (length (moves (state oneLogged)))
   \<and> \<not> isPositionOccupied oneLogged 1 1
   \<and> currentPlayerPiece (moveBy carol 1 1 Piece_O) oneLogged = Piece_O
   \<and> (\<exists>g'. applyMove (moveBy carol 1 1 Piece_O) oneLogged = Inr g')
   \<and> fst (handleCommand ''g2'' (GameMoveCommand ''g1'' (cell 1 1 Piece_O)) carol
            \<lparr>game = Some oneLogged, history = [], changes = 0\<rparr>)
       = Inr EmptyResponse"
proof -
  have x: "Some (playerID (moveBy carol 1 1 Piece_O)) \<noteq> x_id (state oneLogged)"
    by (simp add: alice_def bob_def carol_def bothJoined_def moveBy_def oneLogged_def logged_def cell_def)
  have o: "Some (playerID (moveBy carol 1 1 Piece_O)) \<noteq> o_id (state oneLogged)"
    by (simp add: alice_def bob_def carol_def bothJoined_def moveBy_def oneLogged_def logged_def cell_def)
  have s: "status (state oneLogged) = IN_PROGRESS
     \<and> odd (length (moves (state oneLogged)))
     \<and> \<not> isPositionOccupied oneLogged 1 1"
    by (simp add: alice_def bob_def carol_def bothJoined_def moveBy_def oneLogged_def logged_def cell_def isPositionOccupied_def)
  have m: "row (move (moveBy carol 1 1 Piece_O)) = 1" "col (move (moveBy carol 1 1 Piece_O)) = 1"
    "move (moveBy carol 1 1 Piece_O) = cell 1 1 Piece_O"
    "playerID (moveBy carol 1 1 Piece_O) = player_id carol"
    "gameID (moveBy carol 1 1 Piece_O) = game_id oneLogged"
    "row (cell 1 1 Piece_O) = 1" "col (cell 1 1 Piece_O) = 1"
    by (simp_all add: alice_def bob_def carol_def bothJoined_def moveBy_def oneLogged_def logged_def cell_def)
  have "currentPlayerPiece (moveBy carol 1 1 Piece_O) oneLogged = Piece_O
   \<and> (\<exists>g'. applyMove (moveBy carol 1 1 Piece_O) oneLogged = Inr g')
   \<and> fst (handleCommand ''g2'' (GameMoveCommand ''g1'' (cell 1 1 Piece_O)) carol
            \<lparr>game = Some oneLogged, history = [], changes = 0\<rparr>)
       = Inr EmptyResponse"
    using s applyMove_accepts_non_occupant
        [OF x o, of "\<lparr>game = Some oneLogged, history = [], changes = 0\<rparr>" carol
            "''g2''" "''g1''"]
    by (simp add: m)
  with x o s show ?thesis
    by blast
qed

end
